theory Spec2Isabelle
  imports Main
begin

section \<open>JavaScript values and the operators the composable uses\<close>

text \<open>
  The composable \<^verbatim>\<open>useCountdownSync\<close> is JavaScript: the timestamps it receives come from a
  parsed JSON response or from the storage, so they are values of any primitive type, and the
  operators \<^verbatim>\<open>!\<close>, \<^verbatim>\<open><\<close>, \<^verbatim>\<open><=\<close>, \<^verbatim>\<open>*\<close>, \<^verbatim>\<open>-\<close>, \<^verbatim>\<open>+\<close> and \<^verbatim>\<open>||\<close> coerce them.

  A Number is modelled as \<open>JNum n\<close> for an integer \<open>n\<close> or as \<open>JNaN\<close>, and the arithmetic is
  that of the integers. A timestamp in seconds or in milliseconds is an integer, and the
  arithmetic of the doubles agrees with it as long as every operand and result is a safe
  integer (at most \<open>2\<^sup>5\<^sup>3\<close> in magnitude, \<open>safe_integer\<close> below): beyond that a double rounds,
  and it overflows to an infinity. Fractions, infinities and the negative zero are outside
  the model, and so are objects and arrays; a string literal whose value is not an integer
  (\<^verbatim>\<open>"1.5"\<close>, \<^verbatim>\<open>"Infinity"\<close>) is outside it too and reads as NaN. A string is a list of
  characters (bytes; the white space is the ASCII one).
\<close>

datatype jsval = JUndefined | JNull | JBool bool | JNaN | JNum int | JStr string

definition safe_integer :: "int \<Rightarrow> bool" where
  "safe_integer n = (\<bar>n\<bar> \<le> 9007199254740992)"

text \<open>
  StringToNumber: white space is trimmed, the empty string is 0, a radix prefix
  (\<^verbatim>\<open>0x\<close>, \<^verbatim>\<open>0o\<close>, \<^verbatim>\<open>0b\<close>) takes no sign, and a decimal literal has an optional sign, digits with
  an optional fraction, and an optional exponent. \<open>None\<close> is NaN.
\<close>

definition is_space :: "char \<Rightarrow> bool" where
  "is_space c = ((of_char c :: nat) \<in> {9, 10, 11, 12, 13, 32})"

definition trim :: "string \<Rightarrow> string" where
  "trim cs = rev (dropWhile is_space (rev (dropWhile is_space cs)))"

definition digit_of :: "nat \<Rightarrow> char \<Rightarrow> nat option" where
  "digit_of radix c =
     (let k = (of_char c :: nat);
          v = (if 48 \<le> k \<and> k \<le> 57 then k - 48
               else if 97 \<le> k \<and> k \<le> 102 then k - 87
               else if 65 \<le> k \<and> k \<le> 70 then k - 55
               else radix)
      in if v < radix then Some v else None)"

fun digits_value :: "nat \<Rightarrow> nat \<Rightarrow> string \<Rightarrow> nat option" where
  "digits_value radix acc [] = Some acc"
| "digits_value radix acc (c # cs) =
     (case digit_of radix c of
        None \<Rightarrow> None
      | Some v \<Rightarrow> digits_value radix (radix * acc + v) cs)"

definition number_of_digits :: "nat \<Rightarrow> string \<Rightarrow> nat option" where
  "number_of_digits radix cs = (if cs = [] then None else digits_value radix 0 cs)"

fun strip_sign :: "string \<Rightarrow> int \<times> string" where
  "strip_sign [] = (1, [])"
| "strip_sign (c # cs) =
     (if c = CHR ''-'' then (- 1, cs) else if c = CHR ''+'' then (1, cs) else (1, c # cs))"

definition is_exp_char :: "char \<Rightarrow> bool" where
  "is_exp_char c = (c = CHR ''e'' \<or> c = CHR ''E'')"

definition decimal_literal :: "string \<Rightarrow> int option" where
  "decimal_literal cs =
     (let mant = takeWhile (\<lambda>c. \<not> is_exp_char c) cs;
          rest = dropWhile (\<lambda>c. \<not> is_exp_char c) cs;
          ip = takeWhile (\<lambda>c. c \<noteq> CHR ''.'') mant;
          fp = drop 1 (dropWhile (\<lambda>c. c \<noteq> CHR ''.'') mant);
          expo = (if rest = [] then Some 0
                  else (case strip_sign (tl rest) of
                          (sg, ds) \<Rightarrow> map_option (\<lambda>e. sg * int e) (number_of_digits 10 ds)))
      in if ip = [] \<and> fp = [] then None
         else (case (digits_value 10 0 (ip @ fp), expo) of
                 (Some m, Some e) \<Rightarrow>
                   (let k = e - int (length fp) in
                    if 0 \<le> k then Some (int m * 10 ^ nat k)
                    else if int m mod 10 ^ nat (- k) = 0 then Some (int m div 10 ^ nat (- k))
                    else None)
               | _ \<Rightarrow> None))"

definition radix_of :: "char \<Rightarrow> nat option" where
  "radix_of c =
     (if c = CHR ''x'' \<or> c = CHR ''X'' then Some 16
      else if c = CHR ''o'' \<or> c = CHR ''O'' then Some 8
      else if c = CHR ''b'' \<or> c = CHR ''B'' then Some 2
      else None)"

definition signed_decimal :: "string \<Rightarrow> int option" where
  "signed_decimal cs =
     (case strip_sign cs of (sg, body) \<Rightarrow> map_option (\<lambda>v. sg * v) (decimal_literal body))"

definition string_to_number :: "string \<Rightarrow> int option" where
  "string_to_number cs =
     (case trim cs of
        [] \<Rightarrow> Some 0
      | [c] \<Rightarrow> signed_decimal [c]
      | c # d # ds \<Rightarrow>
          (case (if c = CHR ''0'' then radix_of d else None) of
             Some radix \<Rightarrow> map_option int (number_of_digits radix ds)
           | None \<Rightarrow> signed_decimal (c # d # ds)))"

text \<open>ToNumber; \<open>None\<close> is NaN.\<close>

fun to_number :: "jsval \<Rightarrow> int option" where
  "to_number JUndefined = None"
| "to_number JNull = Some 0"
| "to_number (JBool b) = Some (if b then 1 else 0)"
| "to_number JNaN = None"
| "to_number (JNum n) = Some n"
| "to_number (JStr cs) = string_to_number cs"

text \<open>ToBoolean: what \<^verbatim>\<open>!x\<close>, \<^verbatim>\<open>x || y\<close> and \<^verbatim>\<open>x && y\<close> test.\<close>

fun js_truthy :: "jsval \<Rightarrow> bool" where
  "js_truthy JUndefined = False"
| "js_truthy JNull = False"
| "js_truthy (JBool b) = b"
| "js_truthy JNaN = False"
| "js_truthy (JNum n) = (n \<noteq> 0)"
| "js_truthy (JStr cs) = (cs \<noteq> [])"

text \<open>\<^verbatim>\<open>Number.isNaN\<close> does not coerce: it is true of the Number NaN only.\<close>

fun number_isNaN :: "jsval \<Rightarrow> bool" where
  "number_isNaN JNaN = True"
| "number_isNaN _ = False"

fun is_string :: "jsval \<Rightarrow> bool" where
  "is_string (JStr _) = True"
| "is_string _ = False"

fun digits_of :: "nat \<Rightarrow> string" where
  "digits_of n =
     (if n < 10 then [char_of (48 + n)]
      else digits_of (n div 10) @ [char_of (48 + n mod 10)])"

declare digits_of.simps [simp del]

text \<open>ToString (decimal notation: integers below \<open>10\<^sup>2\<^sup>1\<close> in magnitude).\<close>

fun to_string :: "jsval \<Rightarrow> string" where
  "to_string JUndefined = ''undefined''"
| "to_string JNull = ''null''"
| "to_string (JBool b) = (if b then ''true'' else ''false'')"
| "to_string JNaN = ''NaN''"
| "to_string (JNum n) = (if n < 0 then CHR ''-'' # digits_of (nat (- n)) else digits_of (nat n))"
| "to_string (JStr cs) = cs"

text \<open>Strings compare by code units, lexicographically.\<close>

fun str_lt :: "string \<Rightarrow> string \<Rightarrow> bool" where
  "str_lt [] [] = False"
| "str_lt [] (y # ys) = True"
| "str_lt (x # xs) [] = False"
| "str_lt (x # xs) (y # ys) =
     ((of_char x :: nat) < of_char y \<or> (x = y \<and> str_lt xs ys))"

definition js_lt :: "jsval \<Rightarrow> jsval \<Rightarrow> bool" where
  "js_lt a b =
     (case (a, b) of
        (JStr x, JStr y) \<Rightarrow> str_lt x y
      | _ \<Rightarrow> (case (to_number a, to_number b) of
                 (Some x, Some y) \<Rightarrow> x < y
               | _ \<Rightarrow> False))"

definition js_gt :: "jsval \<Rightarrow> jsval \<Rightarrow> bool" where
  "js_gt a b = js_lt b a"

definition js_le :: "jsval \<Rightarrow> jsval \<Rightarrow> bool" where
  "js_le a b =
     (case (a, b) of
        (JStr x, JStr y) \<Rightarrow> (if str_lt y x then False else True)
      | _ \<Rightarrow> (case (to_number a, to_number b) of
                 (Some x, Some y) \<Rightarrow> x \<le> y
               | _ \<Rightarrow> False))"

definition js_ge :: "jsval \<Rightarrow> jsval \<Rightarrow> bool" where
  "js_ge a b = js_le b a"

definition js_add :: "jsval \<Rightarrow> jsval \<Rightarrow> jsval" where
  "js_add a b =
     (if is_string a \<or> is_string b then JStr (to_string a @ to_string b)
      else (case (to_number a, to_number b) of
              (Some x, Some y) \<Rightarrow> JNum (x + y)
            | _ \<Rightarrow> JNaN))"

definition js_sub :: "jsval \<Rightarrow> jsval \<Rightarrow> jsval" where
  "js_sub a b =
     (case (to_number a, to_number b) of
        (Some x, Some y) \<Rightarrow> JNum (x - y)
      | _ \<Rightarrow> JNaN)"

definition js_mul :: "jsval \<Rightarrow> jsval \<Rightarrow> jsval" where
  "js_mul a b =
     (case (to_number a, to_number b) of
        (Some x, Some y) \<Rightarrow> JNum (x * y)
      | _ \<Rightarrow> JNaN)"

definition js_or :: "jsval \<Rightarrow> jsval \<Rightarrow> jsval" where
  "js_or a b = (if js_truthy a then a else b)"

definition math_max :: "jsval \<Rightarrow> jsval \<Rightarrow> jsval" where
  "math_max a b =
     (case (to_number a, to_number b) of
        (Some x, Some y) \<Rightarrow> JNum (max x y)
      | _ \<Rightarrow> JNaN)"

definition math_min :: "jsval \<Rightarrow> jsval \<Rightarrow> jsval" where
  "math_min a b =
     (case (to_number a, to_number b) of
        (Some x, Some y) \<Rightarrow> JNum (min x y)
      | _ \<Rightarrow> JNaN)"

definition math_abs :: "jsval \<Rightarrow> jsval" where
  "math_abs a = (case to_number a of Some x \<Rightarrow> JNum \<bar>x\<bar> | None \<Rightarrow> JNaN)"

text \<open>\<^verbatim>\<open>Math.floor(a / b)\<close> for a divisor other than zero (the source divides by 1000 only).\<close>

definition math_floor_div :: "jsval \<Rightarrow> jsval \<Rightarrow> jsval" where
  "math_floor_div a b =
     (case (to_number a, to_number b) of
        (Some x, Some y) \<Rightarrow> (if y = 0 then JNaN else JNum (x div y))
      | _ \<Rightarrow> JNaN)"

section \<open>Constants\<close>

abbreviation MAX_TIMESTAMP_DEVIATION :: int where "MAX_TIMESTAMP_DEVIATION \<equiv> 300000"
abbreviation MS_PER_SECOND :: int where "MS_PER_SECOND \<equiv> 1000"
abbreviation MAX_CACHE_AGE :: int where "MAX_CACHE_AGE \<equiv> 24 * 60 * 60 * MS_PER_SECOND"
abbreviation MAX_FUTURE_TIME :: int where "MAX_FUTURE_TIME \<equiv> 365 * 24 * 60 * 60 * MS_PER_SECOND"
abbreviation SECOND_TIMESTAMP_THRESHOLD :: int where "SECOND_TIMESTAMP_THRESHOLD \<equiv> 1000000000000"
abbreviation MAX_RETRIES :: int where "MAX_RETRIES \<equiv> 3"
abbreviation REQUEST_DELAY_TOLERANCE :: int where "REQUEST_DELAY_TOLERANCE \<equiv> 2000"

text \<open>
  \<^verbatim>\<open>RETRY_DELAY[retryCount] || RETRY_DELAY[RETRY_DELAY.length - 1]\<close>: an index outside the
  array reads \<^verbatim>\<open>undefined\<close>, and the last delay stands in.
\<close>

definition RETRY_DELAY :: "int list" where
  "RETRY_DELAY = [1000, 3000, 5000]"

definition retry_delay :: "int \<Rightarrow> int" where
  "retry_delay k =
     (if 0 \<le> k \<and> k < int (length RETRY_DELAY) \<and> RETRY_DELAY ! nat k \<noteq> 0
      then RETRY_DELAY ! nat k
      else RETRY_DELAY ! (length RETRY_DELAY - 1))"

section \<open>The state of one countdown session\<close>

text \<open>
  The user-visible messages are Chinese string literals and template strings in the source;
  here each literal is a constructor, a template carries the values it interpolates, and
  a message is the list of its parts (\<^verbatim>\<open>+=\<close> appends a part). \<open>MsgNull\<close> is the text
  \<^verbatim>\<open>null\<close> that \<^verbatim>\<open>null + string\<close> produces.
\<close>

datatype msg =
    MsgInvalidTimestamp
  | MsgEndTimeExpired jsval
  | MsgEndTimeTooFar
  | MsgAndCacheInvalid
  | MsgSyncCancelled
  | MsgSyncFailedRetry bool int int
  | MsgSyncFailedUseCache
  | MsgButCacheInvalid
  | MsgAnomalyCorrected
  | MsgNull

definition append_msg :: "msg list option \<Rightarrow> msg \<Rightarrow> msg list option" where
  "append_msg e m = (case e of None \<Rightarrow> Some [MsgNull, m] | Some ps \<Rightarrow> Some (ps @ [m]))"

record cached =
  c_serverEndTime :: jsval
  c_serverNow :: jsval
  c_clientNow :: jsval
  c_syncedAt :: jsval

record debug_info =
  d_serverEndTime :: jsval
  d_serverNow :: jsval
  d_clientNow :: jsval
  d_clientTimeElapsed :: jsval
  d_currentServerTime :: jsval
  d_newRemaining :: jsval
  d_requestDelay :: jsval

text \<open>The parsed response body: the fields \<^verbatim>\<open>e\<close>, \<^verbatim>\<open>serverEndTime\<close>, \<^verbatim>\<open>s\<close>, \<^verbatim>\<open>serverNow\<close>
  (\<open>JUndefined\<close> when absent).\<close>

record response =
  r_e :: jsval
  r_serverEndTime :: jsval
  r_s :: jsval
  r_serverNow :: jsval

text \<open>
  What a failed request throws: the error's name and whether its message includes
  \<^verbatim>\<open>timeout\<close>. An HTTP status outside 2xx, a network failure and a body that does not parse
  are errors of another name. A request settles with a parsed body or with an error; the body
  is an object (or another value whose properties read \<^verbatim>\<open>undefined\<close>), or it is the JSON value
  \<^verbatim>\<open>null\<close>, on which the property access \<^verbatim>\<open>response.e\<close> throws a TypeError.
\<close>

datatype error_name = AbortError | TimeoutError | OtherError

record fetch_error =
  err_name :: error_name
  err_message_has_timeout :: bool

datatype fetch_result = Response response | ResponseNull | Failure fetch_error

text \<open>
  The refs of the composable, and the environment it runs in: \<open>clock\<close> is the sequence of
  values \<^verbatim>\<open>Date.now()\<close> returns (\<open>reads\<close> counts the calls so far), \<open>net\<close> the outcome of
  each request (\<open>fetches\<close> counts them), and \<open>timer\<close> the number of times the 100 ms display
  interval fires while the session is suspended in an \<^verbatim>\<open>await\<close> (\<open>suspensions\<close> counts
  those).
\<close>

record state =
  isClient :: bool
  serverEndTime :: jsval
  serverNow :: jsval
  clientNow :: jsval
  requestSendTime :: jsval
  isTimestampValid :: bool
  remaining :: jsval
  isExpired :: bool
  syncing :: bool
  errorMessage :: "msg list option"
  debugInfo :: "debug_info option"
  retryCount :: int
  isSyncDisabled :: bool
  storage :: "cached option"
  clock :: "nat \<Rightarrow> int"
  reads :: nat
  net :: "nat \<Rightarrow> fetch_result"
  fetches :: nat
  timer :: "nat \<Rightarrow> nat"
  suspensions :: nat

definition date_now :: "state \<Rightarrow> int \<times> state" where
  "date_now s = (clock s (reads s), s\<lparr>reads := reads s + 1\<rparr>)"

section \<open>Timestamp normalizer and validator\<close>

definition normalizeTimestamp :: "jsval \<Rightarrow> jsval" where
  "normalizeTimestamp timestamp =
     (if js_lt timestamp (JNum SECOND_TIMESTAMP_THRESHOLD)
      then js_mul timestamp (JNum MS_PER_SECOND)
      else timestamp)"

definition validateTimestamps :: "jsval \<Rightarrow> jsval \<Rightarrow> state \<Rightarrow> bool \<times> state" where
  "validateTimestamps endTime nowTime s =
     (if \<not> js_truthy endTime \<or> \<not> js_truthy nowTime
         \<or> number_isNaN endTime \<or> number_isNaN nowTime
         \<or> js_le endTime (JNum 0) \<or> js_le nowTime (JNum 0)
      then (False, s\<lparr>errorMessage := Some [MsgInvalidTimestamp]\<rparr>)
      else
        let normalizedEnd = normalizeTimestamp endTime;
            normalizedNow = normalizeTimestamp nowTime;
            timeDiff = js_sub normalizedEnd normalizedNow
        in
          if js_lt timeDiff (JNum (- MAX_TIMESTAMP_DEVIATION))
          then (False, s\<lparr>errorMessage :=
                  Some [MsgEndTimeExpired (math_abs (math_floor_div timeDiff (JNum MS_PER_SECOND)))]\<rparr>)
          else if js_gt timeDiff (JNum MAX_FUTURE_TIME)
          then (False, s\<lparr>errorMessage := Some [MsgEndTimeTooFar]\<rparr>)
          else if js_truthy (requestSendTime s)
          then
            (case date_now s of (t, s1) \<Rightarrow>
               let requestDelay = js_sub (JNum t) (requestSendTime s1) in
               if js_gt requestDelay (JNum REQUEST_DELAY_TOLERANCE)
               then (True, s1\<lparr>serverNow := js_add normalizedNow requestDelay,
                               serverEndTime := normalizedEnd\<rparr>)
               else (True, s1\<lparr>serverNow := normalizedNow, serverEndTime := normalizedEnd\<rparr>))
          else (True, s\<lparr>serverEndTime := normalizedEnd, serverNow := normalizedNow\<rparr>))"

section \<open>Countdown estimator\<close>

definition updateRemaining :: "state \<Rightarrow> state" where
  "updateRemaining s =
     (if \<not> isTimestampValid s \<or> \<not> js_truthy (serverEndTime s)
         \<or> \<not> js_truthy (serverNow s) \<or> \<not> js_truthy (clientNow s)
      then s\<lparr>remaining := JNum 0, isExpired := True\<rparr>
      else
        (case date_now s of (t, s1) \<Rightarrow>
           let clientTimeElapsed = js_sub (JNum t) (clientNow s1);
               currentServerTime = js_add (serverNow s1) clientTimeElapsed;
               newRemaining = js_sub (serverEndTime s1) currentServerTime;
               s2 = s1\<lparr>remaining :=
                      math_max (JNum 0)
                        (math_min (js_or (remaining s1) newRemaining) newRemaining)\<rparr>;
               s3 = s2\<lparr>isExpired := js_le (remaining s2) (JNum 0)\<rparr>
           in
             (case (if js_truthy (requestSendTime s3)
                    then (case date_now s3 of (t', s4) \<Rightarrow>
                            (js_sub (JNum t') (requestSendTime s4), s4))
                    else (JNum 0, s3)) of
                (requestDelay, s5) \<Rightarrow>
                  s5\<lparr>debugInfo := Some
                       \<lparr>d_serverEndTime = serverEndTime s5,
                        d_serverNow = serverNow s5,
                        d_clientNow = clientNow s5,
                        d_clientTimeElapsed = clientTimeElapsed,
                        d_currentServerTime = currentServerTime,
                        d_newRemaining = newRemaining,
                        d_requestDelay = requestDelay\<rparr>\<rparr>)))"

section \<open>Cache fallback\<close>

text \<open>\<open>storage s = None\<close> is \<^verbatim>\<open>storage.value === null\<close>; a field the stored value lacks is
  \<open>JUndefined\<close>.\<close>

definition useCachedData :: "state \<Rightarrow> bool \<times> state" where
  "useCachedData s =
     (case storage s of
        None \<Rightarrow> (False, s)
      | Some cached \<Rightarrow>
          if \<not> js_truthy (c_serverEndTime cached) \<or> \<not> js_truthy (c_serverNow cached)
             \<or> \<not> js_truthy (c_clientNow cached)
          then (False, s)
          else
            (case date_now s of (t1, s1) \<Rightarrow>
               let cacheAge = js_sub (JNum t1) (c_syncedAt cached) in
               if js_ge cacheAge (JNum MAX_CACHE_AGE) then (False, s1)
               else
                 let cachedServerNow = normalizeTimestamp (c_serverNow cached);
                     cachedServerEnd = normalizeTimestamp (c_serverEndTime cached)
                 in
                   (case date_now s1 of (t2, s2) \<Rightarrow>
                      let cacheTimeElapsed = js_sub (JNum t2) (c_clientNow cached);
                          currentCachedServerTime = js_add cachedServerNow cacheTimeElapsed
                      in
                        if js_lt (js_sub cachedServerEnd currentCachedServerTime)
                             (JNum (- MAX_TIMESTAMP_DEVIATION))
                        then (False, s2)
                        else
                          (case date_now s2 of (t3, s3) \<Rightarrow>
                             (True, s3\<lparr>serverEndTime := cachedServerEnd,
                                        serverNow := cachedServerNow,
                                        clientNow := JNum t3\<rparr>)))))"

section \<open>Sync transport and retry orchestrator\<close>

text \<open>
  The session is single-threaded: between two \<^verbatim>\<open>await\<close>s a function runs to completion, and
  while it is suspended the display interval (\<^verbatim>\<open>useIntervalFn(updateRemaining, 100)\<close>) keeps
  firing. The other callbacks that could run then call \<^verbatim>\<open>syncNow\<close>, which returns at once
  while \<^verbatim>\<open>syncing\<close> is set.
\<close>

definition suspend :: "state \<Rightarrow> state" where
  "suspend s =
     (updateRemaining ^^ timer s (suspensions s)) (s\<lparr>suspensions := suspensions s + 1\<rparr>)"

text \<open>\<^verbatim>\<open>fetchSyncData\<close> up to its \<^verbatim>\<open>await fetch(...)\<close>: it records the send time.\<close>

definition fetchSyncData_start :: "state \<Rightarrow> state" where
  "fetchSyncData_start s = (case date_now s of (t, s1) \<Rightarrow> s1\<lparr>requestSendTime := JNum t\<rparr>)"

text \<open>The request in flight: the session is suspended, then the request settles with the
  parsed body or with the error thrown (the abort of the timeout timer is an \<open>AbortError\<close>).\<close>

definition fetchSyncData_settle :: "state \<Rightarrow> fetch_result \<times> state" where
  "fetchSyncData_settle s =
     (let s1 = suspend s in (net s1 (fetches s1), s1\<lparr>fetches := fetches s1 + 1\<rparr>))"

text \<open>The \<^verbatim>\<open>finally\<close> block of \<^verbatim>\<open>syncWithRetry\<close>.\<close>

definition clear_requestSendTime :: "state \<Rightarrow> state" where
  "clear_requestSendTime s = s\<lparr>requestSendTime := JNull\<rparr>"

text \<open>The TypeError that \<^verbatim>\<open>response.e\<close> throws on a \<^verbatim>\<open>null\<close> body.\<close>

definition null_body_error :: fetch_error where
  "null_body_error = \<lparr>err_name = OtherError, err_message_has_timeout = False\<rparr>"

text \<open>
  The \<^verbatim>\<open>try\<close> block of \<^verbatim>\<open>syncWithRetry\<close> from the point where its request is in flight:
  \<open>Inr\<close> the state when the block completes, \<open>Inl\<close> the error thrown and the state at the
  throw. The retry counter is reset before the body is read.
\<close>

definition syncWithRetry_try :: "state \<Rightarrow> (fetch_error \<times> state) + state" where
  "syncWithRetry_try s =
     (case fetchSyncData_settle s of
        (Failure error, s1) \<Rightarrow> Inl (error, s1)
      | (ResponseNull, s1) \<Rightarrow> Inl (null_body_error, s1\<lparr>retryCount := 0\<rparr>)
      | (Response resp, s1) \<Rightarrow>
          let s2 = s1\<lparr>retryCount := 0\<rparr>;
              serverEnd = js_or (r_e resp) (r_serverEndTime resp);
              serverNow' = js_or (r_s resp) (r_serverNow resp)
          in
            (case validateTimestamps serverEnd serverNow' s2 of
               (True, s3) \<Rightarrow>
                 (case date_now s3 of (t, s4) \<Rightarrow>
                    let s5 = s4\<lparr>clientNow := JNum t\<rparr> in
                    (case date_now s5 of (t', s6) \<Rightarrow>
                       Inr (s6\<lparr>storage := Some
                              \<lparr>c_serverEndTime = serverEnd,
                               c_serverNow = serverNow',
                               c_clientNow = clientNow s6,
                               c_syncedAt = JNum t'\<rparr>\<rparr>)))
             | (False, s3) \<Rightarrow>
                 (case useCachedData s3 of
                    (True, s4) \<Rightarrow> Inr s4
                  | (False, s4) \<Rightarrow>
                      Inr (s4\<lparr>errorMessage :=
                                append_msg (errorMessage s4) MsgAndCacheInvalid\<rparr>))))"

text \<open>
  \<^verbatim>\<open>syncWithRetry\<close> from the point where its request is in flight: the \<^verbatim>\<open>try\<close> block, the
  \<^verbatim>\<open>catch\<close> block and the \<^verbatim>\<open>finally\<close> block. In the retry branch the source executes
  \<^verbatim>\<open>return syncWithRetry()\<close> inside \<^verbatim>\<open>try ... finally\<close>: the inner call runs up to its first
  \<^verbatim>\<open>await\<close> (it records a new send time and issues the request), the promise is returned, and
  the \<^verbatim>\<open>finally\<close> block of the outer call clears \<^verbatim>\<open>requestSendTime\<close> before the inner request
  settles. The result is \<open>None\<close> when the promise never settles: the counter is reset before a
  \<^verbatim>\<open>null\<close> body throws, so the retries need not end. The promise's value (\<^verbatim>\<open>false\<close> after an
  abort, \<^verbatim>\<open>undefined\<close> otherwise) is not used by the caller and is left out.
\<close>

partial_function (option) syncWithRetry_resume :: "state \<Rightarrow> state option" where
  "syncWithRetry_resume s =
     (case syncWithRetry_try s of
        Inr s1 \<Rightarrow> Some (clear_requestSendTime s1)
      | Inl (error, s1) \<Rightarrow>
          let isTimeout = (err_name error = TimeoutError \<or> err_message_has_timeout error);
              isAbort = (err_name error = AbortError)
          in
            if isAbort
            then Some (clear_requestSendTime (s1\<lparr>errorMessage := Some [MsgSyncCancelled]\<rparr>))
            else if retryCount s1 < MAX_RETRIES
            then
              let delay = retry_delay (retryCount s1);
                  s2 = s1\<lparr>errorMessage := Some
                         [MsgSyncFailedRetry isTimeout (delay div 1000) (retryCount s1 + 1)]\<rparr>;
                  s3 = s2\<lparr>retryCount := retryCount s2 + 1\<rparr>;
                  s4 = suspend s3;
                  s5 = fetchSyncData_start s4
              in syncWithRetry_resume (clear_requestSendTime s5)
            else
              let s2 = s1\<lparr>errorMessage := Some [MsgSyncFailedUseCache]\<rparr> in
              (case useCachedData s2 of
                 (cacheValid, s3) \<Rightarrow>
                   let s4 = (if \<not> cacheValid
                             then s3\<lparr>errorMessage := append_msg (errorMessage s3) MsgButCacheInvalid,
                                     isTimestampValid := False\<rparr>
                             else s3)
                   in Some (clear_requestSendTime (s4\<lparr>retryCount := 0\<rparr>))))"

definition syncWithRetry :: "state \<Rightarrow> state option" where
  "syncWithRetry s = syncWithRetry_resume (fetchSyncData_start s)"

section \<open>Deadline-change watcher\<close>

text \<open>The callback of \<^verbatim>\<open>watch(serverEndTime, (newVal, oldVal) => ...)\<close>.\<close>

definition watch_serverEndTime :: "jsval \<Rightarrow> jsval \<Rightarrow> state \<Rightarrow> state" where
  "watch_serverEndTime newVal oldVal s =
     (if js_truthy oldVal \<and> js_truthy newVal
         \<and> js_gt newVal (js_add oldVal (JNum (MS_PER_SECOND * 2)))
      then s\<lparr>serverEndTime := oldVal, errorMessage := Some [MsgAnomalyCorrected]\<rparr>
      else s)"

text \<open>
  The watcher is registered on the client only. Its job runs after the code that replaced
  \<^verbatim>\<open>serverEndTime\<close> has run to its next \<^verbatim>\<open>await\<close> or to its end: \<open>oldVal\<close> is the value the
  watcher saw last, and the callback runs when the value differs from it. The callback writes
  the watched ref, so when it reverts the value its job runs once more, with the reverted
  value as the new one and the rejected value as the old one.
\<close>

definition flush_serverEndTime :: "jsval \<Rightarrow> state \<Rightarrow> state" where
  "flush_serverEndTime oldVal s =
     (if isClient s \<and> serverEndTime s \<noteq> oldVal
      then
        let newVal = serverEndTime s;
            s1 = watch_serverEndTime newVal oldVal s
        in if serverEndTime s1 \<noteq> newVal
           then watch_serverEndTime (serverEndTime s1) newVal s1
           else s1
      else s)"

section \<open>The public sync method\<close>

text \<open>
  \<^verbatim>\<open>syncNow\<close>; \<open>None\<close> when the sync it awaits never settles. The watcher's job, queued when
  the sync replaced \<^verbatim>\<open>serverEndTime\<close>, runs before the continuation of
  \<^verbatim>\<open>await syncWithRetry()\<close>. The \<^verbatim>\<open>finally\<close> block also starts the one second timer whose
  callback is \<open>cooldown_elapsed\<close>.
\<close>

definition syncNow :: "state \<Rightarrow> state option" where
  "syncNow s =
     (if \<not> isClient s \<or> syncing s \<or> isSyncDisabled s then Some s
      else
        let s1 = s\<lparr>isSyncDisabled := True, syncing := True, errorMessage := None\<rparr>;
            preSyncRemaining = remaining s1
        in
          (case syncWithRetry s1 of
             None \<Rightarrow> None
           | Some settled \<Rightarrow>
               let s2 = flush_serverEndTime (serverEndTime s1) settled;
                   s3 = (if js_gt (remaining s2) preSyncRemaining
                            \<and> js_gt preSyncRemaining (JNum 0)
                         then s2\<lparr>remaining := preSyncRemaining\<rparr>
                         else s2);
                   s4 = s3\<lparr>syncing := False\<rparr>
               in Some (updateRemaining s4)))"

definition cooldown_elapsed :: "state \<Rightarrow> state" where
  "cooldown_elapsed s = s\<lparr>isSyncDisabled := False\<rparr>"

section \<open>Example sessions\<close>

text \<open>A freshly constructed session on the client (the initial values of the refs), with an
  empty storage, a clock that advances 100 ms per reading and a network that is down.\<close>

definition example_state :: state where
  "example_state =
     \<lparr>isClient = True, serverEndTime = JNull, serverNow = JNull, clientNow = JNull,
      requestSendTime = JNull, isTimestampValid = True, remaining = JNum 0, isExpired = False,
      syncing = False, errorMessage = None, debugInfo = None, retryCount = 0,
      isSyncDisabled = False, storage = None,
      clock = (\<lambda>n. 1700000000000 + 100 * int n), reads = 0,
      net = (\<lambda>n. Failure \<lparr>err_name = OtherError, err_message_has_timeout = False\<rparr>),
      fetches = 0, timer = (\<lambda>n. 0), suspensions = 0\<rparr>"

section \<open>Notions of the specification\<close>

text \<open>The specification types the fields of the SyncState as timestamps: each is unset
  (\<^verbatim>\<open>null\<close>) or a Number.\<close>

fun timestamp_or_null :: "jsval \<Rightarrow> bool" where
  "timestamp_or_null JNull = True"
| "timestamp_or_null (JNum n) = True"
| "timestamp_or_null _ = False"

definition sync_state_typed :: "state \<Rightarrow> bool" where
  "sync_state_typed s =
     (timestamp_or_null (serverEndTime s) \<and> timestamp_or_null (serverNow s)
      \<and> timestamp_or_null (clientNow s))"

text \<open>The specification's \<^verbatim>\<open>candidateRemaining = serverEndTime - (serverNow + (localNow -
  clientNow))\<close>, at the next reading of the clock.\<close>

definition candidateRemaining :: "state \<Rightarrow> jsval" where
  "candidateRemaining s =
     js_sub (serverEndTime s)
       (js_add (serverNow s) (js_sub (JNum (clock s (reads s))) (clientNow s)))"

text \<open>The specification's clamp rule, in its words:
  \<^verbatim>\<open>max(0, min(previousRemaining ?? candidateRemaining, candidateRemaining))\<close>, where \<^verbatim>\<open>??\<close>
  takes its right operand when the left one is \<^verbatim>\<open>null\<close> or \<^verbatim>\<open>undefined\<close>.\<close>

definition js_nullish :: "jsval \<Rightarrow> jsval \<Rightarrow> jsval" where
  "js_nullish a b = (if a = JNull \<or> a = JUndefined then b else a)"

definition spec_clamp_rule :: "jsval \<Rightarrow> jsval \<Rightarrow> jsval" where
  "spec_clamp_rule previousRemaining candidate =
     math_max (JNum 0) (math_min (js_nullish previousRemaining candidate) candidate)"

text \<open>A session whose SyncState says that 60 s remain, before its first tick.\<close>

definition ticking_state :: state where
  "ticking_state =
     example_state\<lparr>serverEndTime := JNum 1700000060000, serverNow := JNum 1700000000000,
                   clientNow := JNum 1700000000000\<rparr>"


text \<open>A session that shows 1000 ms and then installs a validated pair by which 5000 ms
  remain (the validator installs the pair, the caller stamps \<^verbatim>\<open>clientNow\<close>).\<close>

definition reinstalled_state :: state where
  "reinstalled_state =
     (snd (validateTimestamps (JNum 1700000060000) (JNum 1700000055000)
            (ticking_state\<lparr>remaining := JNum 1000\<rparr>)))\<lparr>clientNow := JNum 1700000000000\<rparr>"

text \<open>Two stored snapshots: one whose deadline lies more than three years after its server
  time, and one written 25 hours before the session's clock.\<close>

definition far_future_cache :: state where
  "far_future_cache =
     example_state\<lparr>storage := Some
       \<lparr>c_serverEndTime = JNum 1800000000000, c_serverNow = JNum 1700000000000,
        c_clientNow = JNum 1700000000000, c_syncedAt = JNum 1700000000000\<rparr>\<rparr>"

definition stale_cache :: state where
  "stale_cache =
     example_state\<lparr>storage := Some
       \<lparr>c_serverEndTime = JNum 1699910060000, c_serverNow = JNum 1699910000000,
        c_clientNow = JNum 1699910000000, c_syncedAt = JNum 1699910000000\<rparr>\<rparr>"


text \<open>
  A session that shows 50 ms: its last tick was at local time 1700000009950. A sync starts
  then; the display interval fires once while the request is in flight, at 1700000010050, and
  the response arrives at 1700000010100 with the same deadline and a server time of
  1700000008600.
\<close>

definition expiring_state :: state where
  "expiring_state =
     example_state\<lparr>serverEndTime := JNum 1700000010000, serverNow := JNum 1700000000000,
       clientNow := JNum 1700000000000, remaining := JNum 50,
       clock := (\<lambda>n. if n = 0 then 1700000009950
                      else if n \<le> 2 then 1700000010050 else 1700000010100),
       net := (\<lambda>n. Response \<lparr>r_e = JNum 1700000010000, r_serverEndTime = JUndefined,
                               r_s = JNum 1700000008600, r_serverNow = JUndefined\<rparr>),
       timer := (\<lambda>n. 1)\<rparr>"


text \<open>A session that has received the response \<^verbatim>\<open>{"e": "abc", "s": 1700000000}\<close>: the
  validator has accepted and installed the pair, and the caller has stamped \<^verbatim>\<open>clientNow\<close>.\<close>

definition polluted_state :: state where
  "polluted_state =
     (snd (validateTimestamps (JStr ''abc'') (JNum 1700000000) example_state))
       \<lparr>clientNow := JNum 1700000000000\<rparr>"

section \<open>Operators on Numbers\<close>

lemma js_num_simps [simp]:
  "js_lt (JNum a) (JNum b) = (a < b)"
  "js_gt (JNum a) (JNum b) = (b < a)"
  "js_le (JNum a) (JNum b) = (a \<le> b)"
  "js_ge (JNum a) (JNum b) = (b \<le> a)"
  "js_add (JNum a) (JNum b) = JNum (a + b)"
  "js_sub (JNum a) (JNum b) = JNum (a - b)"
  "js_mul (JNum a) (JNum b) = JNum (a * b)"
  "math_max (JNum a) (JNum b) = JNum (max a b)"
  "math_min (JNum a) (JNum b) = JNum (min a b)"
  "js_or (JNum a) v = (if a = 0 then v else JNum a)"
  by (simp_all add: js_lt_def js_gt_def js_le_def js_ge_def js_add_def js_sub_def js_mul_def
      math_max_def math_min_def js_or_def)

lemma normalizeTimestamp_num [simp]:
  "normalizeTimestamp (JNum x) = JNum (if x < 1000000000000 then x * 1000 else x)"
  by (simp add: normalizeTimestamp_def)

lemma string_abc: "string_to_number ''abc'' = None"
  by code_simp

section \<open>Timestamp normalizer\<close>

text \<open>
  C8 (as the specification states it): \<^verbatim>\<open>normalize(normalize(x)) == normalize(x)\<close> for every
  number \<open>x\<close>. It fails for the number 5: the first call gives 5000, which is still below
  the threshold, and the second call multiplies again.
\<close>

theorem normalize_not_idempotent:
  "normalizeTimestamp (normalizeTimestamp (JNum 5)) \<noteq> normalizeTimestamp (JNum 5)"
  by simp

text \<open>
  C8 (amended): for an integer \<open>x\<close> such that \<open>x * 1000\<close> is a safe integer (at most
  \<open>2\<^sup>5\<^sup>3\<close> in magnitude, where the doubles are exact), normalizing twice gives the same as
  normalizing once exactly when \<open>x\<close> is 0 or at least \<open>10\<^sup>9\<close>.
\<close>

theorem normalize_idempotent_iff:
  assumes "safe_integer (x * 1000)"
  shows "normalizeTimestamp (normalizeTimestamp (JNum x)) = normalizeTimestamp (JNum x)
     \<longleftrightarrow> x = 0 \<or> 1000000000 \<le> x"
  by auto

theorem normalize_idempotent_iff_witness:
  "safe_integer (1700000000 * 1000)
   \<and> normalizeTimestamp (normalizeTimestamp (JNum 1700000000)) = normalizeTimestamp (JNum 1700000000)
   \<and> normalizeTimestamp (normalizeTimestamp (JNum 1700000)) \<noteq> normalizeTimestamp (JNum 1700000)"
proof -
  have a: "safe_integer (1700000000 * 1000)" and b: "safe_integer (1700000 * 1000)"
    by (simp_all add: safe_integer_def)
  from normalize_idempotent_iff [OF a] normalize_idempotent_iff [OF b] a show ?thesis
    by simp
qed

section \<open>Validator\<close>

text \<open>On Numbers the validator rejects exactly what its rules name.\<close>

lemma validate_numeric_iff:
  "fst (validateTimestamps (JNum e) (JNum n) s) \<longleftrightarrow>
     0 < e \<and> 0 < n
     \<and> (if n < 1000000000000 then n * 1000 else n)
         - (if e < 1000000000000 then e * 1000 else e) \<le> 300000
     \<and> (if e < 1000000000000 then e * 1000 else e)
         - (if n < 1000000000000 then n * 1000 else n) \<le> 31536000000"
  by (auto simp: validateTimestamps_def Let_def date_now_def split: prod.splits)

text \<open>
  C7: the validator is to reject a non-numeric input. The string \<^verbatim>\<open>"abc"\<close> as the end time,
  with a plausible server time, is accepted and installed: it is truthy,
  \<^verbatim>\<open>Number.isNaN("abc")\<close> is false, and every comparison with the NaN it converts to is false.
\<close>

theorem validate_accepts_non_numeric:
  "fst (validateTimestamps (JStr ''abc'') (JNum 1700000000) s)
   \<and> serverEndTime (snd (validateTimestamps (JStr ''abc'') (JNum 1700000000) s)) = JStr ''abc''"
  by (simp add: validateTimestamps_def Let_def date_now_def normalizeTimestamp_def js_lt_def
      js_le_def js_gt_def js_sub_def string_abc split: prod.splits)

theorem validate_accepts_non_numeric_witness:
  "fst (validateTimestamps (JStr ''abc'') (JNum 1700000000) example_state)
   \<and> serverEndTime (snd (validateTimestamps (JStr ''abc'') (JNum 1700000000) example_state))
       = JStr ''abc''"
  using validate_accepts_non_numeric [of example_state] by simp

text \<open>
  C10: when the validator rejects a pair, the state it returns is the state it was given
  but for the error message, which it sets: \<^verbatim>\<open>serverEndTime\<close>, \<^verbatim>\<open>serverNow\<close> and
  \<^verbatim>\<open>clientNow\<close> are unchanged.
\<close>

theorem validate_rejection_atomic:
  assumes "validateTimestamps endTime nowTime s = (False, s')"
  shows "s' = s\<lparr>errorMessage := errorMessage s'\<rparr> \<and> errorMessage s' \<noteq> None"
  using assms
  by (auto simp: validateTimestamps_def Let_def date_now_def split: if_splits prod.splits)

theorem validate_rejection_atomic_witness:
  "validateTimestamps (JNum 1700000000) (JNum 1700000301) example_state =
     (False, example_state\<lparr>errorMessage := Some [MsgEndTimeExpired (JNum 301)]\<rparr>)
   \<and> serverEndTime (example_state\<lparr>errorMessage := Some [MsgEndTimeExpired (JNum 301)]\<rparr>) = JNull"
proof -
  have h: "validateTimestamps (JNum 1700000000) (JNum 1700000301) example_state =
     (False, example_state\<lparr>errorMessage := Some [MsgEndTimeExpired (JNum 301)]\<rparr>)"
    by (simp add: validateTimestamps_def Let_def math_abs_def math_floor_div_def)
  from validate_rejection_atomic [OF h] h show ?thesis
    by (simp add: example_state_def)
qed

text \<open>
  C6: when the validator accepts a pair while a send time \<open>t0\<close> is recorded, the request
  delay is the clock reading minus \<open>t0\<close>; the installed \<^verbatim>\<open>serverNow\<close> is the normalized server
  time plus the delay when the delay exceeds 2000 ms and the normalized server time otherwise,
  and the installed \<^verbatim>\<open>serverEndTime\<close> is the normalized end time in both cases.
\<close>

theorem latency_compensation:
  assumes "validateTimestamps endTime nowTime s = (True, s')"
    and "requestSendTime s = JNum t0" and "t0 \<noteq> 0"
  shows "serverNow s' =
           (if clock s (reads s) - t0 > REQUEST_DELAY_TOLERANCE
            then js_add (normalizeTimestamp nowTime) (JNum (clock s (reads s) - t0))
            else normalizeTimestamp nowTime)
         \<and> serverEndTime s' = normalizeTimestamp endTime"
  using assms
  by (auto simp: validateTimestamps_def Let_def date_now_def split: if_splits prod.splits)

theorem latency_compensation_witness:
  "validateTimestamps (JNum 1700000060) (JNum 1700000000)
      (example_state\<lparr>requestSendTime := JNum 1699999995000\<rparr>)
     = (True, example_state\<lparr>requestSendTime := JNum 1699999995000, reads := 1,
               serverNow := JNum (1700000000000 + 5000), serverEndTime := JNum 1700000060000\<rparr>)"
proof -
  obtain s' where h: "validateTimestamps (JNum 1700000060) (JNum 1700000000)
      (example_state\<lparr>requestSendTime := JNum 1699999995000\<rparr>) = (True, s')"
    by (simp add: validateTimestamps_def Let_def date_now_def example_state_def)
  have "serverNow s' = JNum 1700000005000 \<and> serverEndTime s' = JNum 1700000060000"
    using latency_compensation [OF h, of 1699999995000] by (simp add: example_state_def)
  with h show ?thesis
    by (simp add: validateTimestamps_def Let_def date_now_def example_state_def)
qed

section \<open>Deadline-change watcher\<close>

text \<open>A Number that the validator or the cache fallback installs as \<^verbatim>\<open>serverEndTime\<close> is
  never 0.\<close>

lemma installed_serverEndTime_set:
  "validateTimestamps (JNum e) nowTime s = (True, s') \<Longrightarrow>
     \<exists>b. serverEndTime s' = JNum b \<and> b \<noteq> 0"
  "storage s = Some c \<Longrightarrow> c_serverEndTime c = JNum e \<Longrightarrow> useCachedData s = (True, s') \<Longrightarrow>
     \<exists>b. serverEndTime s' = JNum b \<and> b \<noteq> 0"
  by (auto simp: validateTimestamps_def useCachedData_def Let_def date_now_def js_le_def
      split: if_splits prod.splits option.splits)

text \<open>
  C4: when \<^verbatim>\<open>serverEndTime\<close> has been replaced, the previous value \<open>old\<close> and the new value
  \<open>new\<close> both being set, the watcher reverts \<^verbatim>\<open>serverEndTime\<close> to \<open>old\<close> and sets the
  anomaly message if \<open>new\<close> exceeds \<open>old\<close> by more than 2000 ms, and leaves the state as it is
  otherwise. (The source tests \<^verbatim>\<open>oldVal && newVal\<close>, so a value that is set is a Number
  other than 0.)
\<close>

theorem deadline_anomaly_guard:
  assumes "isClient s" and "serverEndTime s = JNum new" and "old \<noteq> 0" and "new \<noteq> 0"
  shows "flush_serverEndTime (JNum old) s =
           (if new > old + 2000
            then s\<lparr>serverEndTime := JNum old, errorMessage := Some [MsgAnomalyCorrected]\<rparr>
            else s)"
  using assms
  by (auto simp: flush_serverEndTime_def watch_serverEndTime_def Let_def)

theorem deadline_anomaly_guard_witness:
  "flush_serverEndTime (JNum 1700000060000) (example_state\<lparr>serverEndTime := JNum 1700000063000\<rparr>)
     = example_state\<lparr>serverEndTime := JNum 1700000060000,
                      errorMessage := Some [MsgAnomalyCorrected]\<rparr>
   \<and> flush_serverEndTime (JNum 1700000060000) (example_state\<lparr>serverEndTime := JNum 1700000061000\<rparr>)
     = example_state\<lparr>serverEndTime := JNum 1700000061000\<rparr>"
  using deadline_anomaly_guard [of "example_state\<lparr>serverEndTime := JNum 1700000063000\<rparr>"
      1700000063000 1700000060000]
    deadline_anomaly_guard [of "example_state\<lparr>serverEndTime := JNum 1700000061000\<rparr>"
      1700000061000 1700000060000]
  by (simp add: example_state_def)

section \<open>Countdown estimator\<close>

lemma timestamp_or_null_cases:
  assumes "timestamp_or_null v"
  obtains "v = JNull" | n where "v = JNum n"
  using assms by (cases v) simp_all

lemma tick_inv:
  assumes "sync_state_typed s" and "remaining s = JNum r" and "0 \<le> r"
  shows "sync_state_typed (updateRemaining s) \<and> clock (updateRemaining s) = clock s
         \<and> (\<exists>r'. remaining (updateRemaining s) = JNum r' \<and> 0 \<le> r')"
proof -
  from assms(1) have a: "timestamp_or_null (serverEndTime s)" "timestamp_or_null (serverNow s)"
    "timestamp_or_null (clientNow s)" by (simp_all add: sync_state_typed_def)
  show ?thesis
    using assms a
    by (elim timestamp_or_null_cases)
       (simp_all add: updateRemaining_def date_now_def Let_def sync_state_typed_def split: prod.splits)
qed

lemma tick_invalid:
  assumes "\<not> (isTimestampValid s \<and> js_truthy (serverEndTime s) \<and> js_truthy (serverNow s)
              \<and> js_truthy (clientNow s))"
  shows "updateRemaining s = s\<lparr>remaining := JNum 0, isExpired := True\<rparr>"
  using assms by (auto simp: updateRemaining_def)

lemma tick_valid:
  assumes "isTimestampValid s" and "serverEndTime s = JNum E" and "E \<noteq> 0"
    and "serverNow s = JNum N" and "N \<noteq> 0" and "clientNow s = JNum C" and "C \<noteq> 0"
    and "remaining s = JNum r"
  shows "remaining (updateRemaining s) =
           JNum (max 0 (min (if r = 0 then E - (N + (clock s (reads s) - C)) else r)
                            (E - (N + (clock s (reads s) - C)))))"
    and "reads (updateRemaining s) = reads s + (if js_truthy (requestSendTime s) then 2 else 1)"
    and "serverEndTime (updateRemaining s) = serverEndTime s"
    and "serverNow (updateRemaining s) = serverNow s"
    and "clientNow (updateRemaining s) = clientNow s"
    and "isTimestampValid (updateRemaining s) = isTimestampValid s"
    and "clock (updateRemaining s) = clock s"
  using assms by (simp_all add: updateRemaining_def date_now_def Let_def)

lemma two_ticks:
  assumes mono: "\<forall>i j. i \<le> j \<longrightarrow> clock s i \<le> clock s j"
    and typed: "sync_state_typed s" and r: "remaining s = JNum r" "0 \<le> r"
  shows "js_le (remaining (updateRemaining (updateRemaining s))) (remaining (updateRemaining s))"
proof (cases "isTimestampValid s \<and> js_truthy (serverEndTime s) \<and> js_truthy (serverNow s)
              \<and> js_truthy (clientNow s)")
  case False
  then have "updateRemaining s = s\<lparr>remaining := JNum 0, isExpired := True\<rparr>"
    by (rule tick_invalid)
  moreover from False have "updateRemaining (s\<lparr>remaining := JNum 0, isExpired := True\<rparr>)
      = s\<lparr>remaining := JNum 0, isExpired := True\<rparr>"
    by (subst tick_invalid) simp_all
  ultimately show ?thesis by simp
next
  case True
  from typed have a: "timestamp_or_null (serverEndTime s)" "timestamp_or_null (serverNow s)"
    "timestamp_or_null (clientNow s)" by (simp_all add: sync_state_typed_def)
  from True a obtain E N C where v: "isTimestampValid s"
    "serverEndTime s = JNum E" "E \<noteq> 0" "serverNow s = JNum N" "N \<noteq> 0"
    "clientNow s = JNum C" "C \<noteq> 0"
    by (elim timestamp_or_null_cases) auto
  define k where "k = reads (updateRemaining s)"
  define c1 where "c1 = E - (N + (clock s (reads s) - C))"
  define c2 where "c2 = E - (N + (clock s k - C))"
  define r1 where "r1 = max 0 (min (if r = 0 then c1 else r) c1)"
  have t1: "remaining (updateRemaining s) = JNum r1"
    unfolding r1_def c1_def by (rule tick_valid(1) [OF v r(1)])
  have "reads s \<le> k"
    unfolding k_def by (simp add: tick_valid(2) [OF v r(1)])
  with mono have le: "c2 \<le> c1"
    unfolding c1_def c2_def by simp
  have t2: "remaining (updateRemaining (updateRemaining s)) =
      JNum (max 0 (min (if r1 = 0 then c2 else r1) c2))"
    unfolding c2_def k_def
    using tick_valid(1) [of "updateRemaining s" E N C r1] v t1
    by (simp add: tick_valid(3-7) [OF v r(1)])
  show ?thesis
    unfolding t1 t2 using le r(2) by (auto simp: r1_def max_def min_def split: if_splits)
qed

lemma ticks_inv:
  assumes "sync_state_typed s" and "remaining s = JNum r" and "0 \<le> r"
  shows "sync_state_typed ((updateRemaining ^^ n) s) \<and> clock ((updateRemaining ^^ n) s) = clock s
         \<and> (\<exists>r'. remaining ((updateRemaining ^^ n) s) = JNum r' \<and> 0 \<le> r')"
proof (induction n)
  case 0
  with assms show ?case by simp
next
  case (Suc n)
  then obtain r' where "sync_state_typed ((updateRemaining ^^ n) s)"
    "clock ((updateRemaining ^^ n) s) = clock s"
    "remaining ((updateRemaining ^^ n) s) = JNum r'" "0 \<le> r'"
    by blast
  then show ?case
    using tick_inv [of "(updateRemaining ^^ n) s" r'] by simp
qed

text \<open>
  On a session whose SyncState fields are timestamps (or unset), whose displayed
  \<^verbatim>\<open>remaining\<close> is a Number that is not negative, and whose clock never goes back,
  \<^verbatim>\<open>remaining\<close> after a tick is at most \<^verbatim>\<open>remaining\<close> after the tick before it.
\<close>

lemma anti_rollback:
  assumes "\<forall>i j. i \<le> j \<longrightarrow> clock s i \<le> clock s j"
    and "sync_state_typed s" and "remaining s = JNum r" and "0 \<le> r"
  shows "js_le (remaining ((updateRemaining ^^ Suc (Suc n)) s))
               (remaining ((updateRemaining ^^ Suc n) s))"
proof -
  obtain r' where "sync_state_typed ((updateRemaining ^^ n) s)"
    "clock ((updateRemaining ^^ n) s) = clock s"
    "remaining ((updateRemaining ^^ n) s) = JNum r'" "0 \<le> r'"
    using ticks_inv [OF assms(2-4), of n] by blast
  with assms(1) show ?thesis
    using two_ticks [of "(updateRemaining ^^ n) s" r'] by simp
qed

lemma ticking_values:
  "remaining (updateRemaining ticking_state) = JNum 60000"
  "remaining ((updateRemaining ^^ 2) ticking_state) = JNum 59900"
  "remaining ((updateRemaining ^^ 3) ticking_state) = JNum 59800"
  by (simp_all add: ticking_state_def example_state_def updateRemaining_def date_now_def Let_def
      numeral_2_eq_2 numeral_3_eq_3)

lemma anti_rollback_example:
  "js_le (remaining ((updateRemaining ^^ 3) ticking_state))
         (remaining ((updateRemaining ^^ 2) ticking_state))
   \<and> remaining ((updateRemaining ^^ 3) ticking_state) = JNum 59800
   \<and> remaining ((updateRemaining ^^ 2) ticking_state) = JNum 59900"
proof -
  have "\<forall>i j. i \<le> j \<longrightarrow> clock ticking_state i \<le> clock ticking_state j"
    by (simp add: ticking_state_def example_state_def)
  moreover have "sync_state_typed ticking_state"
    by (simp add: sync_state_typed_def ticking_state_def example_state_def)
  moreover have "remaining ticking_state = JNum 0"
    by (simp add: ticking_state_def example_state_def)
  ultimately have "js_le (remaining ((updateRemaining ^^ Suc (Suc 1)) ticking_state))
         (remaining ((updateRemaining ^^ Suc 1) ticking_state))"
    by (rule anti_rollback) simp
  then show ?thesis
    using ticking_values by (simp add: numeral_2_eq_2 numeral_3_eq_3)
qed

text \<open>
  C1: in every run of consecutive \<^verbatim>\<open>updateRemaining\<close> evaluations with no SyncState
  accepted in between, \<^verbatim>\<open>remaining\<close> after an evaluation is to be at most \<^verbatim>\<open>remaining\<close>
  after the evaluation before it. Once the validator has installed the string \<^verbatim>\<open>"abc"\<close> as
  the deadline, every tick computes \<^verbatim>\<open>"abc" - currentServerTime\<close>, which is NaN, and leaves
  \<^verbatim>\<open>remaining\<close> NaN: the value after the second tick is not at most the value after the
  first, no comparison with NaN being true.
\<close>

theorem ticks_after_non_numeric_deadline:
  "remaining (updateRemaining polluted_state) = JNaN
   \<and> remaining (updateRemaining (updateRemaining polluted_state)) = JNaN
   \<and> \<not> js_le (remaining (updateRemaining (updateRemaining polluted_state)))
             (remaining (updateRemaining polluted_state))"
  by (simp add: polluted_state_def example_state_def validateTimestamps_def normalizeTimestamp_def
      updateRemaining_def date_now_def Let_def js_lt_def js_le_def js_gt_def js_sub_def js_or_def
      math_max_def math_min_def string_abc)

theorem ticks_after_non_numeric_deadline_witness:
  "\<not> js_le (remaining (updateRemaining (updateRemaining polluted_state)))
           (remaining (updateRemaining polluted_state))"
  using ticks_after_non_numeric_deadline by blast

text \<open>
  C2 (as the specification states it): a tick sets \<^verbatim>\<open>remaining\<close> to
  \<^verbatim>\<open>max(0, min(previousRemaining ?? candidateRemaining, candidateRemaining))\<close>, and the
  ceiling is reset to the candidate once per installation of a validated SyncState. Both parts
  fail. The previous value is the Number 0 before the first sync, not \<^verbatim>\<open>null\<close>: the tick
  shows the candidate, 60000, where the rule gives 0. And after an installation by which 5000 ms
  remain, the first tick keeps the 1000 ms shown before: no ceiling is reset.
\<close>

theorem tick_clamp_rule_fails:
  "remaining (updateRemaining ticking_state) = JNum 60000
   \<and> spec_clamp_rule (remaining ticking_state) (candidateRemaining ticking_state) = JNum 0
   \<and> candidateRemaining reinstalled_state = JNum 5000
   \<and> remaining (updateRemaining reinstalled_state) = JNum 1000"
  by (simp add: reinstalled_state_def ticking_state_def example_state_def updateRemaining_def date_now_def Let_def
      spec_clamp_rule_def js_nullish_def candidateRemaining_def validateTimestamps_def)

text \<open>
  C2 (amended): a tick with a valid SyncState sets \<^verbatim>\<open>remaining\<close> to
  \<^verbatim>\<open>max(0, min(previousRemaining || candidateRemaining, candidateRemaining))\<close>: the ceiling is
  the previous value unless that is 0, and then it is the candidate. Installing a SyncState
  (by the validator or from the cache) does not write \<^verbatim>\<open>remaining\<close>, so no ceiling is reset
  there.
\<close>

theorem tick_clamp_rule:
  assumes "isTimestampValid s" and "js_truthy (serverEndTime s)" and "js_truthy (serverNow s)"
    and "js_truthy (clientNow s)"
    and "candidateRemaining s = JNum c" and "remaining s = JNum r"
  shows "remaining (updateRemaining s) = JNum (max 0 (min (if r = 0 then c else r) c))
         \<and> remaining (snd (validateTimestamps endTime nowTime s)) = remaining s
         \<and> remaining (snd (useCachedData s)) = remaining s"
proof -
  have "remaining (updateRemaining s) = JNum (max 0 (min (if r = 0 then c else r) c))"
    using assms
    by (simp add: updateRemaining_def date_now_def Let_def candidateRemaining_def split: prod.splits)
  moreover have "remaining (snd (validateTimestamps endTime nowTime s)) = remaining s"
    by (simp add: validateTimestamps_def date_now_def Let_def split: prod.splits)
  moreover have "remaining (snd (useCachedData s)) = remaining s"
    by (simp add: useCachedData_def date_now_def Let_def split: prod.splits option.splits)
  ultimately show ?thesis by simp
qed

theorem tick_clamp_rule_witness:
  "remaining (updateRemaining ticking_state) = JNum (max 0 (min 60000 60000))
   \<and> remaining (updateRemaining reinstalled_state) = JNum (max 0 (min 1000 5000))"
proof -
  have a: "isTimestampValid ticking_state" "js_truthy (serverEndTime ticking_state)"
    "js_truthy (serverNow ticking_state)" "js_truthy (clientNow ticking_state)"
    "candidateRemaining ticking_state = JNum 60000" "remaining ticking_state = JNum 0"
    by (simp_all add: ticking_state_def example_state_def candidateRemaining_def)
  have b: "isTimestampValid reinstalled_state" "js_truthy (serverEndTime reinstalled_state)"
    "js_truthy (serverNow reinstalled_state)" "js_truthy (clientNow reinstalled_state)"
    "candidateRemaining reinstalled_state = JNum 5000" "remaining reinstalled_state = JNum 1000"
    by (simp_all add: reinstalled_state_def ticking_state_def example_state_def
        candidateRemaining_def validateTimestamps_def Let_def)
  from tick_clamp_rule [OF a] tick_clamp_rule [OF b] show ?thesis by simp
qed

section \<open>Cache fallback\<close>

text \<open>
  C5 (as the specification states it): the cache fallback accepts a stored pair only if the
  validator accepts it, the two acceptance rules being equivalent. Neither direction holds: a
  snapshot whose deadline is more than 365 days after its server time is accepted from the
  cache and rejected by the validator, and a snapshot written 25 hours ago is rejected from the
  cache while the validator accepts its pair.
\<close>

theorem cache_rules_differ:
  "fst (useCachedData far_future_cache)
   \<and> \<not> fst (validateTimestamps (JNum 1800000000000) (JNum 1700000000000) far_future_cache)
   \<and> \<not> fst (useCachedData stale_cache)
   \<and> fst (validateTimestamps (JNum 1699910060000) (JNum 1699910000000) stale_cache)"
  by (simp add: far_future_cache_def stale_cache_def example_state_def useCachedData_def
      validateTimestamps_def date_now_def Let_def)

text \<open>
  C5 (amended): the cache fallback has rules of its own. A stored snapshot of Numbers is
  accepted exactly when its \<^verbatim>\<open>serverEndTime\<close>, \<^verbatim>\<open>serverNow\<close> and \<^verbatim>\<open>clientNow\<close> are not 0,
  its age (the clock minus \<^verbatim>\<open>syncedAt\<close>) is below 24 hours, and the normalized deadline is not
  more than 5 minutes before the normalized server time projected by the time elapsed since
  \<^verbatim>\<open>clientNow\<close>. Neither the positivity rule nor the 365-day rule of the validator is applied.
\<close>

theorem cache_acceptance_rule:
  assumes "storage s = Some c"
    and "c_serverEndTime c = JNum e" and "c_serverNow c = JNum n"
    and "c_clientNow c = JNum k" and "c_syncedAt c = JNum a"
  shows "fst (useCachedData s) \<longleftrightarrow>
           e \<noteq> 0 \<and> n \<noteq> 0 \<and> k \<noteq> 0
           \<and> clock s (reads s) - a < MAX_CACHE_AGE
           \<and> - MAX_TIMESTAMP_DEVIATION \<le>
               (if e < 1000000000000 then e * 1000 else e)
               - ((if n < 1000000000000 then n * 1000 else n) + (clock s (reads s + 1) - k))"
  using assms
  by (auto simp: useCachedData_def date_now_def Let_def split: prod.splits)

theorem cache_acceptance_rule_witness:
  "fst (useCachedData far_future_cache) \<and> \<not> fst (useCachedData stale_cache)"
proof -
  have "fst (useCachedData far_future_cache) \<longleftrightarrow>
           (1800000000000::int) \<noteq> 0 \<and> (1700000000000::int) \<noteq> 0 \<and> (1700000000000::int) \<noteq> 0
           \<and> clock far_future_cache (reads far_future_cache) - 1700000000000 < MAX_CACHE_AGE
           \<and> - MAX_TIMESTAMP_DEVIATION \<le>
               (if (1800000000000::int) < 1000000000000 then 1800000000000 * 1000 else 1800000000000)
               - ((if (1700000000000::int) < 1000000000000 then 1700000000000 * 1000 else 1700000000000)
                  + (clock far_future_cache (reads far_future_cache + 1) - 1700000000000))"
    by (rule cache_acceptance_rule
          [where c = "\<lparr>c_serverEndTime = JNum 1800000000000, c_serverNow = JNum 1700000000000,
                       c_clientNow = JNum 1700000000000, c_syncedAt = JNum 1700000000000\<rparr>"])
       (simp_all add: far_future_cache_def example_state_def)
  moreover have "fst (useCachedData stale_cache) \<longleftrightarrow>
           (1699910060000::int) \<noteq> 0 \<and> (1699910000000::int) \<noteq> 0 \<and> (1699910000000::int) \<noteq> 0
           \<and> clock stale_cache (reads stale_cache) - 1699910000000 < MAX_CACHE_AGE
           \<and> - MAX_TIMESTAMP_DEVIATION \<le>
               (if (1699910060000::int) < 1000000000000 then 1699910060000 * 1000 else 1699910060000)
               - ((if (1699910000000::int) < 1000000000000 then 1699910000000 * 1000 else 1699910000000)
                  + (clock stale_cache (reads stale_cache + 1) - 1699910000000))"
    by (rule cache_acceptance_rule
          [where c = "\<lparr>c_serverEndTime = JNum 1699910060000, c_serverNow = JNum 1699910000000,
                       c_clientNow = JNum 1699910000000, c_syncedAt = JNum 1699910000000\<rparr>"])
       (simp_all add: stale_cache_def example_state_def)
  ultimately show ?thesis
    by (simp add: far_future_cache_def stale_cache_def example_state_def)
qed

section \<open>Retry orchestrator\<close>

lemma updateRemaining_frame [simp]:
  "retryCount (updateRemaining s) = retryCount s"
  "storage (updateRemaining s) = storage s"
  "clock (updateRemaining s) = clock s"
  "net (updateRemaining s) = net s"
  "fetches (updateRemaining s) = fetches s"
  "isTimestampValid (updateRemaining s) = isTimestampValid s"
  "timer (updateRemaining s) = timer s"
  "suspensions (updateRemaining s) = suspensions s"
  by (simp_all add: updateRemaining_def date_now_def Let_def split: prod.splits)

lemma ticks_frame [simp]:
  "retryCount ((updateRemaining ^^ n) s) = retryCount s"
  "storage ((updateRemaining ^^ n) s) = storage s"
  "clock ((updateRemaining ^^ n) s) = clock s"
  "net ((updateRemaining ^^ n) s) = net s"
  "fetches ((updateRemaining ^^ n) s) = fetches s"
  "isTimestampValid ((updateRemaining ^^ n) s) = isTimestampValid s"
  by (induction n) simp_all

lemma suspend_frame [simp]:
  "retryCount (suspend s) = retryCount s"
  "storage (suspend s) = storage s"
  "clock (suspend s) = clock s"
  "net (suspend s) = net s"
  "fetches (suspend s) = fetches s"
  "isTimestampValid (suspend s) = isTimestampValid s"
  by (simp_all add: suspend_def)

lemma useCachedData_frame [simp]:
  "retryCount (snd (useCachedData s)) = retryCount s"
  "fetches (snd (useCachedData s)) = fetches s"
  "isTimestampValid (snd (useCachedData s)) = isTimestampValid s"
  by (simp_all add: useCachedData_def date_now_def Let_def split: option.splits prod.splits)

lemma useCachedData_fst_cong:
  assumes "storage a = storage b" and "clock a = clock b" and "reads a = reads b"
  shows "fst (useCachedData a) = fst (useCachedData b)"
  using assms
  by (simp add: useCachedData_def date_now_def Let_def split: option.splits prod.splits)

lemma resume_exhausted:
  assumes "\<not> retryCount s < MAX_RETRIES"
    and "net s (fetches s) = Failure err" and "err_name err \<noteq> AbortError"
    and "\<forall>s'. storage s' = storage s \<longrightarrow> clock s' = clock s \<longrightarrow> \<not> fst (useCachedData s')"
  shows "\<exists>r. syncWithRetry_resume s = Some r \<and> \<not> isTimestampValid r \<and> retryCount r = 0
              \<and> fetches r = fetches s + 1"
proof -
  define u where "u = (suspend s)\<lparr>fetches := fetches (suspend s) + 1,
                       errorMessage := Some [MsgSyncFailedUseCache]\<rparr>"
  have "\<not> fst (useCachedData u)"
    using assms(4) by (simp add: u_def)
  then obtain u' where c: "useCachedData u = (False, u')"
    by (cases "useCachedData u") auto
  have "u' = snd (useCachedData u)" using c by simp
  then have f: "fetches u' = fetches s + 1" by (simp add: u_def)
  have "syncWithRetry_resume s =
      Some (clear_requestSendTime
        (u'\<lparr>errorMessage := append_msg (errorMessage u') MsgButCacheInvalid,
            isTimestampValid := False, retryCount := 0\<rparr>))"
    using assms(1-3) c
    by (subst syncWithRetry_resume.simps)
      (simp add: syncWithRetry_try_def fetchSyncData_settle_def Let_def u_def)
  then show ?thesis
    using f by (simp add: clear_requestSendTime_def)
qed

lemma resume_retry:
  assumes "retryCount s < MAX_RETRIES"
    and "net s (fetches s) = Failure err" and "err_name err \<noteq> AbortError"
  shows "\<exists>s'. syncWithRetry_resume s = syncWithRetry_resume s'
           \<and> retryCount s' = retryCount s + 1 \<and> fetches s' = fetches s + 1
           \<and> net s' = net s \<and> storage s' = storage s \<and> clock s' = clock s"
  using assms
  apply (subst syncWithRetry_resume.simps)
  apply (simp add: syncWithRetry_try_def fetchSyncData_settle_def Let_def)
  apply (rule exI, rule conjI, rule refl)
  apply (simp add: clear_requestSendTime_def fetchSyncData_start_def date_now_def)
  done

lemma resume_exhausts:
  assumes "retryCount s = MAX_RETRIES - int j"
    and "\<forall>k\<le>j. \<exists>err. net s (fetches s + k) = Failure err \<and> err_name err \<noteq> AbortError"
    and "\<forall>s'. storage s' = storage s \<longrightarrow> clock s' = clock s \<longrightarrow> \<not> fst (useCachedData s')"
  shows "\<exists>r. syncWithRetry_resume s = Some r \<and> \<not> isTimestampValid r \<and> retryCount r = 0
              \<and> fetches r = fetches s + j + 1"
  using assms
proof (induction j arbitrary: s)
  case 0
  then obtain err where "net s (fetches s) = Failure err" "err_name err \<noteq> AbortError"
    by auto
  with 0 show ?case
    using resume_exhausted [of s err] by simp
next
  case (Suc j)
  from Suc.prems(2) obtain err where e: "net s (fetches s) = Failure err" "err_name err \<noteq> AbortError"
    by (metis add.right_neutral le0)
  from Suc.prems(1) have "retryCount s < MAX_RETRIES" by simp
  from resume_retry [OF this e] obtain s' where s':
    "syncWithRetry_resume s = syncWithRetry_resume s'"
    "retryCount s' = retryCount s + 1" "fetches s' = fetches s + 1"
    "net s' = net s" "storage s' = storage s" "clock s' = clock s"
    by blast
  have "retryCount s' = MAX_RETRIES - int j"
    using s'(2) Suc.prems(1) by simp
  moreover have "\<forall>k\<le>j. \<exists>err. net s' (fetches s' + k) = Failure err \<and> err_name err \<noteq> AbortError"
  proof (intro allI impI)
    fix k assume "k \<le> j"
    then have "Suc k \<le> Suc j" by simp
    with Suc.prems(2) have "\<exists>err. net s (fetches s + Suc k) = Failure err \<and> err_name err \<noteq> AbortError"
      by blast
    then show "\<exists>err. net s' (fetches s' + k) = Failure err \<and> err_name err \<noteq> AbortError"
      by (simp add: s'(3,4))
  qed
  moreover have "\<forall>t. storage t = storage s' \<longrightarrow> clock t = clock s' \<longrightarrow> \<not> fst (useCachedData t)"
    using Suc.prems(3) by (simp add: s'(5,6))
  ultimately have "\<exists>r. syncWithRetry_resume s' = Some r \<and> \<not> isTimestampValid r
      \<and> retryCount r = 0 \<and> fetches r = fetches s' + j + 1"
    by (rule Suc.IH)
  then show ?case by (simp add: s'(1,3))
qed

text \<open>
  C9: a sync starts with \<^verbatim>\<open>retryCount = 0\<close>, its next four requests fail with errors other
  than an abort, and the cache fallback is unusable (wherever the session's clock stands, it
  rejects the stored snapshot). Then \<^verbatim>\<open>syncWithRetry\<close> returns, with \<^verbatim>\<open>isTimestampValid\<close>
  false and \<^verbatim>\<open>retryCount\<close> 0, after exactly four requests: the first and three retries.
\<close>

theorem retry_exhaustion:
  assumes "retryCount s = 0"
    and "\<forall>k<4. \<exists>err. net s (fetches s + k) = Failure err \<and> err_name err \<noteq> AbortError"
    and "\<forall>r. \<not> fst (useCachedData (s\<lparr>reads := r\<rparr>))"
  shows "\<exists>r. syncWithRetry s = Some r \<and> \<not> isTimestampValid r \<and> retryCount r = 0
              \<and> fetches r = fetches s + 4"
proof -
  define u where "u = fetchSyncData_start s"
  have u: "retryCount u = 0" "net u = net s" "fetches u = fetches s" "storage u = storage s"
    "clock u = clock s"
    using assms(1) by (simp_all add: u_def fetchSyncData_start_def date_now_def)
  have "retryCount u = MAX_RETRIES - int 3" using u(1) by simp
  moreover have "\<forall>k\<le>3. \<exists>err. net u (fetches u + k) = Failure err \<and> err_name err \<noteq> AbortError"
    using assms(2) by (simp add: u)
  moreover have "\<forall>s'. storage s' = storage u \<longrightarrow> clock s' = clock u \<longrightarrow> \<not> fst (useCachedData s')"
  proof (intro allI impI)
    fix s' :: state
    assume "storage s' = storage u" "clock s' = clock u"
    then have "fst (useCachedData s') = fst (useCachedData (s\<lparr>reads := reads s'\<rparr>))"
      by (intro useCachedData_fst_cong) (simp_all add: u)
    with assms(3) show "\<not> fst (useCachedData s')" by simp
  qed
  ultimately have "\<exists>r. syncWithRetry_resume u = Some r \<and> \<not> isTimestampValid r
      \<and> retryCount r = 0 \<and> fetches r = fetches u + 3 + 1"
    by (rule resume_exhausts)
  then show ?thesis by (simp add: syncWithRetry_def u_def [symmetric] u add.commute)
qed

theorem retry_exhaustion_witness:
  "\<exists>r. syncWithRetry example_state = Some r \<and> \<not> isTimestampValid r \<and> retryCount r = 0
        \<and> fetches r = 4"
proof -
  have "retryCount example_state = 0"
    by (simp add: example_state_def)
  moreover have "\<forall>k<4. \<exists>err. net example_state (fetches example_state + k) = Failure err
      \<and> err_name err \<noteq> AbortError"
    by (simp add: example_state_def)
  moreover have "\<forall>r. \<not> fst (useCachedData (example_state\<lparr>reads := r\<rparr>))"
    by (simp add: example_state_def useCachedData_def)
  ultimately have "\<exists>r. syncWithRetry example_state = Some r \<and> \<not> isTimestampValid r
      \<and> retryCount r = 0 \<and> fetches r = fetches example_state + 4"
    by (rule retry_exhaustion)
  then show ?thesis by (simp add: example_state_def)
qed

text \<open>A server that answers every request with the body \<^verbatim>\<open>null\<close> keeps the sync retrying:
  it never settles.\<close>

lemma null_bodies_never_settle:
  assumes "syncWithRetry_resume s = Some r"
  shows "\<exists>k. net s k \<noteq> ResponseNull"
proof (rule syncWithRetry_resume.raw_induct
    [where P = "\<lambda>s r. \<exists>k. net s k \<noteq> ResponseNull" and s = s and y = r], goal_cases)
  case (1 resume s r)
  show ?case
  proof (rule ccontr)
    assume "\<not> (\<exists>k. net s k \<noteq> ResponseNull)"
    then have all: "\<forall>k. net s k = ResponseNull" by simp
    define s' where "s' = clear_requestSendTime (fetchSyncData_start (suspend
        ((suspend s)\<lparr>fetches := fetches (suspend s) + 1, retryCount := 0,
           errorMessage := Some [MsgSyncFailedRetry False (retry_delay 0 div 1000) 1],
           retryCount := 1\<rparr>)))"
    have "resume s' = Some r"
      using 1(2) all
      by (simp add: syncWithRetry_try_def fetchSyncData_settle_def Let_def null_body_error_def
          s'_def)
    with 1(1) have "\<exists>k. net s' k \<noteq> ResponseNull" by blast
    moreover have "net s' = net s"
      by (simp add: s'_def clear_requestSendTime_def fetchSyncData_start_def date_now_def)
    ultimately show False using all by simp
  qed
next
  case 2
  show ?case by (rule assms)
qed

section \<open>The public sync method\<close>

text \<open>
  C3: a sync that starts with \<^verbatim>\<open>remaining = R > 0\<close> is to end with \<^verbatim>\<open>remaining\<close> at most
  \<open>R\<close>. In the session \<open>expiring_state\<close> it starts with 50 and ends with 1400: the tick during
  the request brings \<^verbatim>\<open>remaining\<close> to 0, the comparison with the value before the sync sees
  that 0, and the tick in the \<^verbatim>\<open>finally\<close> block then takes 0 for unset and shows the new
  candidate.
\<close>

theorem syncNow_raises_remaining:
  "remaining expiring_state = JNum 50
   \<and> map_option remaining (syncNow expiring_state) = Some (JNum 1400)"
  by (simp add: syncNow_def syncWithRetry_def syncWithRetry_resume.simps syncWithRetry_try_def
      fetchSyncData_start_def fetchSyncData_settle_def suspend_def clear_requestSendTime_def
      flush_serverEndTime_def watch_serverEndTime_def updateRemaining_def validateTimestamps_def
      date_now_def Let_def expiring_state_def example_state_def)

theorem syncNow_raises_remaining_witness:
  "map_option (\<lambda>r. js_gt (remaining r) (remaining expiring_state)) (syncNow expiring_state)
     = Some True"
proof -
  obtain r where "syncNow expiring_state = Some r" "remaining r = JNum 1400"
    using syncNow_raises_remaining by auto
  then show ?thesis
    using syncNow_raises_remaining by simp
qed

lemma tick_not_above:
  assumes "sync_state_typed s" and "remaining s = JNum q" and "0 < q"
  shows "\<exists>r. remaining (updateRemaining s) = JNum r \<and> r \<le> q"
proof (cases "isTimestampValid s \<and> js_truthy (serverEndTime s) \<and> js_truthy (serverNow s)
              \<and> js_truthy (clientNow s)")
  case False
  then have "updateRemaining s = s\<lparr>remaining := JNum 0, isExpired := True\<rparr>"
    by (rule tick_invalid)
  with assms(3) show ?thesis by simp
next
  case True
  from assms(1) have a: "timestamp_or_null (serverEndTime s)" "timestamp_or_null (serverNow s)"
    "timestamp_or_null (clientNow s)" by (simp_all add: sync_state_typed_def)
  from True a obtain E N C where v: "isTimestampValid s"
    "serverEndTime s = JNum E" "E \<noteq> 0" "serverNow s = JNum N" "N \<noteq> 0"
    "clientNow s = JNum C" "C \<noteq> 0"
    by (elim timestamp_or_null_cases) auto
  show ?thesis
    using tick_valid(1) [OF v assms(2)] assms(3) by simp
qed

lemma flush_remaining [simp]:
  "remaining (flush_serverEndTime old s) = remaining s"
  by (simp add: flush_serverEndTime_def watch_serverEndTime_def Let_def)

text \<open>
  The guard does hold the value down when the countdown has not run out while the sync was
  awaited: if \<^verbatim>\<open>remaining\<close> is still a positive Number when the sync settles, and the
  SyncState then holds timestamps, the sync ends with \<^verbatim>\<open>remaining\<close> at most the value it
  started with.
\<close>

lemma syncNow_clamps_unless_expired:
  assumes "isClient s" and "\<not> syncing s" and "\<not> isSyncDisabled s"
    and "remaining s = JNum R" and "0 < R"
    and "syncWithRetry (s\<lparr>isSyncDisabled := True, syncing := True, errorMessage := None\<rparr>)
           = Some settled"
    and "remaining settled = JNum q" and "0 < q"
    and "sync_state_typed (flush_serverEndTime (serverEndTime s) settled)"
  shows "\<exists>r. syncNow s = Some r \<and> js_le (remaining r) (JNum R)"
proof -
  define s2 where "s2 = flush_serverEndTime (serverEndTime s) settled"
  define s4 where "s4 = (if R < q then s2\<lparr>remaining := JNum R\<rparr> else s2)\<lparr>syncing := False\<rparr>"
  have eq: "syncNow s = Some (updateRemaining s4)"
    using assms(1-8)
    by (simp add: syncNow_def Let_def s2_def s4_def)
  have "sync_state_typed s4"
    using assms(9) by (simp add: s4_def s2_def sync_state_typed_def)
  moreover have "remaining s4 = JNum (min q R)"
    using assms(7) by (simp add: s4_def s2_def min_def)
  moreover have "0 < min q R" using assms(5,8) by simp
  ultimately obtain r where "remaining (updateRemaining s4) = JNum r" "r \<le> min q R"
    using tick_not_above by blast
  with eq show ?thesis by auto
qed

end
